theory Spec2Isabelle
  imports Complex_Main "HOL-Library.Word"
begin

section \<open>Go strings and the library functions the media core calls\<close>

text \<open>
  A Go string is a sequence of bytes, here a \<open>char list\<close>. The functions of this section
  are the ones of the packages \<open>strings\<close> and \<open>strconv\<close> that the verified code calls.
\<close>

definition asciiSpace :: "char \<Rightarrow> bool" where
  "asciiSpace c \<longleftrightarrow> c \<in> {CHR 0x09, CHR 0x0A, CHR 0x0B, CHR 0x0C, CHR 0x0D, CHR 0x20}"

text \<open>
  The UTF-8 encodings of the white space code points beyond ASCII that \<open>unicode.IsSpace\<close>
  accepts: U+0085, U+00A0, U+1680, U+2000 to U+200A, U+2028, U+2029, U+202F, U+205F, U+3000.
\<close>

definition unicodeSpaces :: "string list" where
  "unicodeSpaces =
     [[CHR 0xC2, CHR 0x85], [CHR 0xC2, CHR 0xA0], [CHR 0xE1, CHR 0x9A, CHR 0x80],
      [CHR 0xE2, CHR 0x80, CHR 0x80], [CHR 0xE2, CHR 0x80, CHR 0x81],
      [CHR 0xE2, CHR 0x80, CHR 0x82], [CHR 0xE2, CHR 0x80, CHR 0x83],
      [CHR 0xE2, CHR 0x80, CHR 0x84], [CHR 0xE2, CHR 0x80, CHR 0x85],
      [CHR 0xE2, CHR 0x80, CHR 0x86], [CHR 0xE2, CHR 0x80, CHR 0x87],
      [CHR 0xE2, CHR 0x80, CHR 0x88], [CHR 0xE2, CHR 0x80, CHR 0x89],
      [CHR 0xE2, CHR 0x80, CHR 0x8A], [CHR 0xE2, CHR 0x80, CHR 0xA8],
      [CHR 0xE2, CHR 0x80, CHR 0xA9], [CHR 0xE2, CHR 0x80, CHR 0xAF],
      [CHR 0xE2, CHR 0x81, CHR 0x9F], [CHR 0xE3, CHR 0x80, CHR 0x80]]"

definition isPrefix :: "string \<Rightarrow> string \<Rightarrow> bool" where
  "isPrefix p s \<longleftrightarrow> take (length p) s = p"

text \<open>The number of bytes of the white space rune a string starts with, 0 when there is none.\<close>

definition spaceLen :: "string \<Rightarrow> nat" where
  "spaceLen s =
     (case s of
        [] \<Rightarrow> 0
      | c # _ \<Rightarrow>
          if asciiSpace c then 1
          else (case filter (\<lambda>p. isPrefix p s) unicodeSpaces of [] \<Rightarrow> 0 | p # _ \<Rightarrow> length p))"

text \<open>The same, read from the end of the string: the argument is the reversed string.\<close>

definition spaceLenRev :: "string \<Rightarrow> nat" where
  "spaceLenRev r =
     (case r of
        [] \<Rightarrow> 0
      | c # _ \<Rightarrow>
          if asciiSpace c then 1
          else (case filter (\<lambda>p. isPrefix (rev p) r) unicodeSpaces of
                  [] \<Rightarrow> 0 | p # _ \<Rightarrow> length p))"

function TrimLeftSpace :: "string \<Rightarrow> string" where
  "TrimLeftSpace s = (if spaceLen s = 0 then s else TrimLeftSpace (drop (spaceLen s) s))"
  by pat_completeness auto
termination
  by (relation "measure length") (auto simp: spaceLen_def split: list.splits)

function TrimRightSpaceRev :: "string \<Rightarrow> string" where
  "TrimRightSpaceRev r =
     (if spaceLenRev r = 0 then r else TrimRightSpaceRev (drop (spaceLenRev r) r))"
  by pat_completeness auto
termination
  by (relation "measure length") (auto simp: spaceLenRev_def split: list.splits)

text \<open>\<open>strings.TrimSpace\<close>: all leading and trailing white space removed.\<close>

definition TrimSpace :: "string \<Rightarrow> string" where
  "TrimSpace s = rev (TrimRightSpaceRev (rev (TrimLeftSpace s)))"

text \<open>
  \<open>strings.Split(s, sep)\<close> for a separator of one byte: the substrings between the
  separators, so one more element than there are separators.
\<close>

fun Split :: "char \<Rightarrow> string \<Rightarrow> string list" where
  "Split sep [] = [[]]"
| "Split sep (c # cs) =
     (if c = sep then [] # Split sep cs
      else (case Split sep cs of [] \<Rightarrow> [[c]] | l # ls \<Rightarrow> (c # l) # ls))"

text \<open>\<open>strings.ReplaceAll(s, ".", "")\<close>.\<close>

definition removeDots :: "string \<Rightarrow> string" where
  "removeDots s = filter (\<lambda>c. c \<noteq> CHR ''.'') s"

definition isDigit :: "char \<Rightarrow> bool" where
  "isDigit c \<longleftrightarrow> (48::nat) \<le> of_char c \<and> (of_char c :: nat) \<le> 57"

definition digitVal :: "char \<Rightarrow> int" where
  "digitVal c = int (of_char c :: nat) - 48"

fun decimal :: "int \<Rightarrow> string \<Rightarrow> int" where
  "decimal n [] = n"
| "decimal n (c # cs) = decimal (n * 10 + digitVal c) cs"

datatype numError = ErrSyntax | ErrRange

text \<open>
  \<open>strconv.Atoi\<close> on a 64-bit platform: an optional sign, then at least one decimal digit
  and nothing else; a value outside the range of \<open>int\<close> is a range error.
\<close>

definition Atoi :: "string \<Rightarrow> numError + int" where
  "Atoi s =
     (case s of
        [] \<Rightarrow> Inl ErrSyntax
      | c # r \<Rightarrow>
          let neg = (c = CHR ''-'');
              ds = (if c = CHR ''-'' \<or> c = CHR ''+'' then r else s)
          in if ds = [] \<or> \<not> list_all isDigit ds then Inl ErrSyntax
             else let n = decimal 0 ds; v = (if neg then - n else n)
                  in if v < - (2 ^ 63) \<or> 2 ^ 63 \<le> v then Inl ErrRange else Inr v)"

text \<open>\<open>strconv.Itoa\<close>: the decimal digits of an integer, with a minus sign when negative.\<close>

fun natDigits :: "nat \<Rightarrow> string" where
  "natDigits n =
     (if n < 10 then [char_of (48 + n)] else natDigits (n div 10) @ [char_of (48 + n mod 10)])"

declare natDigits.simps [simp del]

definition Itoa :: "int \<Rightarrow> string" where
  "Itoa i = (if i < 0 then CHR ''-'' # natDigits (nat (- i)) else natDigits (nat i))"

section \<open>Durations\<close>

text \<open>\<open>time.Duration\<close> counts nanoseconds.\<close>

type_synonym Duration = int

definition Millisecond :: Duration where
  "Millisecond = 1000000"

definition Second :: Duration where
  "Second = 1000000000"

section \<open>Keyframe duration of an HLS playlist (pkg/ffmpeg)\<close>

datatype kfError = ReadFileError | TooFewLines | InvalidLine | AtoiError numError

text \<open>
  \<open>getKeyframeDuration\<close>. The argument is what \<open>ioutil.ReadFile(hlsPath)\<close> gave: the
  bytes of the file, or \<open>None\<close> when the read failed. The interval has at most four
  characters, so the product with \<open>time.Millisecond\<close> stays far inside \<open>int64\<close>.
\<close>

definition getKeyframeDuration :: "string option \<Rightarrow> kfError + Duration" where
  "getKeyframeDuration file =
     (case file of
        None \<Rightarrow> Inl ReadFileError
      | Some m3u8 \<Rightarrow>
          let lines = Split (CHR 0x0A) (TrimSpace m3u8)
          in if length lines < 2 then Inl TooFewLines
             else let keyframeLine = removeDots (lines ! (length lines - 2))
                  in if length keyframeLine < 12 then Inl InvalidLine
                     else (case Atoi (take 4 (drop 8 keyframeLine)) of
                             Inl e \<Rightarrow> Inl (AtoiError e)
                           | Inr keyframeInterval \<Rightarrow> Inr (keyframeInterval * Millisecond)))"

text \<open>The playlist of the comment in the source, each line ended by a line feed.\<close>

definition examplePlaylist :: string where
  "examplePlaylist =
     ''#EXTM3U'' @ [CHR 0x0A] @ ''#EXT-X-VERSION:3'' @ [CHR 0x0A] @
     ''#EXT-X-ALLOW-CACHE:NO'' @ [CHR 0x0A] @ ''#EXT-X-TARGETDURATION:2'' @ [CHR 0x0A] @
     ''#EXT-X-MEDIA-SEQUENCE:251'' @ [CHR 0x0A] @ ''#EXTINF:4.250000,'' @ [CHR 0x0A] @
     ''10.ts'' @ [CHR 0x0A] @ ''#EXTINF:3.500000,'' @ [CHR 0x0A] @ ''11.ts'' @ [CHR 0x0A]"

definition examplePlaylist2 :: string where
  "examplePlaylist2 =
     ''#EXTM3U'' @ [CHR 0x0A] @ ''#EXTINF:4.250000,'' @ [CHR 0x0A] @ ''10.ts'' @ [CHR 0x0A]"

section \<open>The process supervisor (pkg/ffmpeg)\<close>

text \<open>
  How a child process ended, as \<open>os.ProcessState\<close> reports it, and the errors
  \<open>cmd.Start\<close> and \<open>cmd.Wait\<close> can return: an \<open>*exec.ExitError\<close> for a child that
  did not exit with status 0, or any other error with its message.
\<close>

datatype ProcessState = Exited nat | Signaled string

datatype goError = ExitError ProcessState | OtherError string

fun stateString :: "ProcessState \<Rightarrow> string" where
  "stateString (Exited n) = ''exit status '' @ natDigits n"
| "stateString (Signaled s) = ''signal: '' @ s"

text \<open>The method \<open>Error()\<close> of an error.\<close>

fun Error :: "goError \<Rightarrow> string" where
  "Error (ExitError st) = stateString st"
| "Error (OtherError msg) = msg"

record process =
  timeout :: Duration
  cmd :: string


definition SetTimeout :: "process \<Rightarrow> Duration \<Rightarrow> process" where
  "SetTimeout p t = p \<lparr> timeout := t \<rparr>"

text \<open>
  \<open>process.Start\<close>, as a function of what \<open>p.cmd.Start()\<close> and \<open>p.cmd.Wait()\<close> return
  (\<open>None\<close> is the nil error). The goroutine that stops the child on cancellation changes
  how the child ends, not what \<open>Start\<close> does with the result of \<open>Wait\<close>.
\<close>

definition Start :: "goError option \<Rightarrow> goError option \<Rightarrow> goError option" where
  "Start startErr waitErr =
     (case startErr of
        Some err \<Rightarrow> Some err
      | None \<Rightarrow>
          (case waitErr of
             None \<Rightarrow> None
           | Some err \<Rightarrow> if Error err = ''exit status 255'' then None else Some err))"

text \<open>
  \<open>process.stop\<close> on a logical clock that starts when \<open>stop\<close> is entered and counts
  nanoseconds. The environment says when the channel \<open>p.done\<close> is closed: \<open>doneAfterInt\<close>
  is that moment when only the interrupt is sent (\<open>None\<close>: the child ignores it),
  \<open>doneAfterKill\<close> is the delay between the kill signal and the close (\<open>None\<close>: never),
  and \<open>pickDone\<close> is the case \<open>select\<close> takes when both of its channels are ready at
  the same instant. The timer of \<open>time.After\<close> fires when the timeout has elapsed, at
  once when the timeout is not positive. The result is the signals sent, each with its
  time, and the time at which \<open>stop\<close> returns, if it does.
\<close>

datatype signal = Interrupt | Kill




section \<open>The path manager (pkg/video)\<close>

text \<open>
  The configuration type \<open>PathConf\<close> and its method \<open>CheckAndFillMissing\<close> are declared
  outside the verified files: the type is a parameter \<open>'c\<close>, the method a parameter
  \<open>check\<close> that returns an error or the configuration with the missing fields filled.
\<close>

datatype 'e pmError = ErrPathAlreadyExist | ErrPathNotExist | ConfError 'e









text \<open>
  The goroutine that \<open>AddPath\<close> starts to remove the path, after its context is done:
  the calls it makes, in program order. The deferred calls run last, in reverse order of
  their \<open>defer\<close> statements.
\<close>

datatype pmAction =
    Debug string
  | Lock
  | Unlock
  | DeleteConf string
  | ClosePath string
  | DeletePath string

definition removePath :: "string \<Rightarrow> pmAction list" where
  "removePath name =
     [Debug ''Remove Lock'', Lock,
      Debug ''Remove A'', DeleteConf name,
      Debug ''Remove B'', ClosePath name,
      Debug ''Remove C'', DeletePath name,
      Debug ''Remove D'',
      Unlock, Debug ''Remove Lock'']"

text \<open>Running a sequence of calls: whether the mutex is held, and the calls made while it is.\<close>

fun underLock :: "bool \<Rightarrow> pmAction list \<Rightarrow> pmAction list" where
  "underLock held [] = []"
| "underLock held (Lock # as) = underLock True as"
| "underLock held (Unlock # as) = underLock False as"
| "underLock held (a # as) = (if held then a # underLock held as else underLock held as)"

section \<open>The stream of a source (pkg/video/gortsplib)\<close>

record serverStreamTrack =
  lastSequenceNumber :: "32 word"
  lastTimeRTP :: "32 word"
  lastTimeNTP :: "64 word"
  lastSSRC :: "32 word"

record rtpHeader =
  SequenceNumber :: "16 word"
  Timestamp :: "32 word"
  SSRC :: "32 word"

record rtpPacket =
  Header :: rtpHeader
  Payload :: "8 word list"

text \<open>
  A stream: its tracks' counters, the readers that are playing (sessions, identified by
  numbers, in the order the loop visits them) and the readers attached.
\<close>

record ServerStream =
  stTracks :: "serverStreamTrack list"
  readersUnicast :: "nat list"
  readers :: "nat list"

text \<open>
  \<open>ServerStream.WritePacketRTP\<close>. \<open>marshal\<close> is \<open>pkt.Marshal\<close> of the RTP library,
  \<open>now\<close> is \<open>time.Now().Unix()\<close>. The result is the stream afterwards and the calls of
  \<open>writePacketRTP\<close> made on readers, or a panic when the track index is out of range.
\<close>

datatype wpResult = TrackIndexPanic | Done ServerStream "(nat \<times> int \<times> 8 word list) list"

definition WritePacketRTP ::
  "(rtpPacket \<Rightarrow> string + 8 word list) \<Rightarrow> ServerStream \<Rightarrow> int \<Rightarrow> rtpPacket \<Rightarrow> 64 word
     \<Rightarrow> wpResult" where
  "WritePacketRTP marshal st trackID pkt now =
     (case marshal pkt of
        Inl err \<Rightarrow> Done st []
      | Inr byts \<Rightarrow>
          if trackID < 0 \<or> int (length (stTracks st)) \<le> trackID then TrackIndexPanic
          else
            let track = stTracks st ! nat trackID;
                track' = track \<lparr> lastSequenceNumber := ucast (SequenceNumber (Header pkt)),
                                 lastTimeRTP := Timestamp (Header pkt),
                                 lastTimeNTP := now,
                                 lastSSRC := SSRC (Header pkt) \<rparr>
            in Done (st \<lparr> stTracks := (stTracks st)[nat trackID := track'] \<rparr>)
                    (map (\<lambda>r. (r, trackID, byts)) (readersUnicast st)))"

section \<open>Floating point numbers\<close>

text \<open>
  A value of Go's \<open>float32\<close> or \<open>float64\<close>: not a number, an infinity, a zero with its
  sign (\<open>Fin 0\<close> is the positive one), or a rational number other than 0. An operation
  computes the exact result and rounds it to the format of its operands, to the nearest
  representable number and to the even one when two are as near (IEEE 754).
\<close>

datatype flt = NaN | PInf | NInf | NegZero | Fin rat

record format =
  precision :: nat
  emin :: int
  emax :: int

definition binary32 :: format where
  "binary32 = \<lparr> precision = 24, emin = - 126, emax = 127 \<rparr>"

definition binary64 :: format where
  "binary64 = \<lparr> precision = 53, emin = - 1022, emax = 1023 \<rparr>"

text \<open>The number of binary digits of a positive integer.\<close>

function bitlen :: "int \<Rightarrow> int" where
  "bitlen n = (if n \<le> 0 then 0 else 1 + bitlen (n div 2))"
  by pat_completeness auto
termination
  by (relation "measure nat") auto

declare bitlen.simps [simp del]

text \<open>For a positive \<open>x\<close>, the exponent \<open>e\<close> such that \<open>x\<close> is at least \<open>2 powi e\<close> and
  less than \<open>2 powi (e + 1)\<close>.\<close>

definition ilog2 :: "rat \<Rightarrow> int" where
  "ilog2 x = (if 1 \<le> x then bitlen \<lfloor>x\<rfloor> - 1 else - bitlen (\<lceil>1 / x\<rceil> - 1))"

definition roundHalfEven :: "rat \<Rightarrow> int" where
  "roundHalfEven y =
     (let f = \<lfloor>y\<rfloor>; r = y - of_int f
      in if r < 1 / 2 then f else if 1 / 2 < r then f + 1 else if even f then f else f + 1)"

text \<open>The distance between the representable numbers around a positive \<open>x\<close>.\<close>

definition quantum :: "format \<Rightarrow> rat \<Rightarrow> rat" where
  "quantum fmt x = 2 powi (max (ilog2 x) (emin fmt) - (int (precision fmt) - 1))"

text \<open>A magnitude rounded as if the exponent had no upper bound.\<close>

definition roundMag :: "format \<Rightarrow> rat \<Rightarrow> rat" where
  "roundMag fmt x =
     (if x \<le> 0 then 0 else of_int (roundHalfEven (x / quantum fmt x)) * quantum fmt x)"

definition roundTo :: "format \<Rightarrow> rat \<Rightarrow> flt" where
  "roundTo fmt x =
     (let m = roundMag fmt \<bar>x\<bar>
      in if m = 0 then (if x < 0 then NegZero else Fin 0)
         else if emax fmt < ilog2 m then (if x < 0 then NInf else PInf)
         else Fin (if x < 0 then - m else m))"

text \<open>A number is representable in a format when rounding leaves it as it is.\<close>

definition representable :: "format \<Rightarrow> rat \<Rightarrow> bool" where
  "representable fmt x \<longleftrightarrow>
     roundMag fmt \<bar>x\<bar> = \<bar>x\<bar> \<and> (x = 0 \<or> ilog2 \<bar>x\<bar> \<le> emax fmt)"

definition isInf :: "flt \<Rightarrow> bool" where
  "isInf a \<longleftrightarrow> a = PInf \<or> a = NInf"

definition isZero :: "flt \<Rightarrow> bool" where
  "isZero a \<longleftrightarrow> a = NegZero \<or> a = Fin 0"

definition signBit :: "flt \<Rightarrow> bool" where
  "signBit a = (case a of NInf \<Rightarrow> True | NegZero \<Rightarrow> True | Fin r \<Rightarrow> r < 0 | _ \<Rightarrow> False)"

definition valueOf :: "flt \<Rightarrow> rat" where
  "valueOf a = (case a of Fin r \<Rightarrow> r | _ \<Rightarrow> 0)"

definition signedInf :: "bool \<Rightarrow> flt" where
  "signedInf neg = (if neg then NInf else PInf)"

definition signedZero :: "bool \<Rightarrow> flt" where
  "signedZero neg = (if neg then NegZero else Fin 0)"

text \<open>The product \<open>a * b\<close> and the quotient \<open>a / b\<close> in a format.\<close>

definition fmul :: "format \<Rightarrow> flt \<Rightarrow> flt \<Rightarrow> flt" where
  "fmul fmt a b =
     (if a = NaN \<or> b = NaN \<or> (isInf a \<and> isZero b) \<or> (isZero a \<and> isInf b) then NaN
      else if isInf a \<or> isInf b then signedInf (signBit a \<noteq> signBit b)
      else if isZero a \<or> isZero b then signedZero (signBit a \<noteq> signBit b)
      else roundTo fmt (valueOf a * valueOf b))"

definition fdiv :: "format \<Rightarrow> flt \<Rightarrow> flt \<Rightarrow> flt" where
  "fdiv fmt a b =
     (if a = NaN \<or> b = NaN \<or> (isInf a \<and> isInf b) \<or> (isZero a \<and> isZero b) then NaN
      else if isInf a \<or> isZero b then signedInf (signBit a \<noteq> signBit b)
      else if isInf b \<or> isZero a then signedZero (signBit a \<noteq> signBit b)
      else roundTo fmt (valueOf a / valueOf b))"

text \<open>The comparisons \<open>a < b\<close> and \<open>a == b\<close>: false when an operand is not a number.\<close>

definition fltRank :: "flt \<Rightarrow> int" where
  "fltRank a = (case a of NInf \<Rightarrow> - 1 | PInf \<Rightarrow> 1 | _ \<Rightarrow> 0)"

definition fless :: "flt \<Rightarrow> flt \<Rightarrow> bool" where
  "fless a b \<longleftrightarrow>
     a \<noteq> NaN \<and> b \<noteq> NaN \<and>
     (fltRank a < fltRank b \<or> (fltRank a = 0 \<and> fltRank b = 0 \<and> valueOf a < valueOf b))"

definition feq :: "flt \<Rightarrow> flt \<Rightarrow> bool" where
  "feq a b \<longleftrightarrow> a \<noteq> NaN \<and> b \<noteq> NaN \<and> fltRank a = fltRank b \<and> valueOf a = valueOf b"

text \<open>
  The conversions: a float to another format (\<open>float32(x)\<close>; to a wider format it changes
  nothing), an integer to a float, and a float to \<open>int\<close>, which drops the fraction. When
  the value is not a number or is outside the range of \<open>int\<close>, the Go specification
  leaves the result of the last one to the implementation: \<open>impl\<close> stands for its choice.
\<close>

definition toFormat :: "format \<Rightarrow> flt \<Rightarrow> flt" where
  "toFormat fmt a = (case a of Fin r \<Rightarrow> if r = 0 then a else roundTo fmt r | _ \<Rightarrow> a)"

definition ofInt :: "format \<Rightarrow> int \<Rightarrow> flt" where
  "ofInt fmt i = roundTo fmt (of_int i)"

definition truncRat :: "rat \<Rightarrow> int" where
  "truncRat r = (if 0 \<le> r then \<lfloor>r\<rfloor> else \<lceil>r\<rceil>)"

definition toInt :: "(flt \<Rightarrow> int) \<Rightarrow> flt \<Rightarrow> int" where
  "toInt impl a =
     (case a of
        Fin r \<Rightarrow> if - (2 ^ 63) \<le> truncRat r \<and> truncRat r < 2 ^ 63 then truncRat r else impl a
      | NegZero \<Rightarrow> 0
      | _ \<Rightarrow> impl a)"

text \<open>The product of two \<open>int64\<close>, which wraps around.\<close>

definition wrap64 :: "int \<Rightarrow> int" where
  "wrap64 i = (i + 2 ^ 63) mod 2 ^ 64 - 2 ^ 63"

section \<open>The detection bridge (addons/doods)\<close>

text \<open>
  What the bridge takes from libraries, from packages outside the verified files and from
  the platform: \<open>json.Unmarshal\<close> into a thresholds map, \<open>ffmpeg.FeedRateToDuration\<close>,
  \<open>strconv.ParseFloat\<close> with its bit size, the conversion of an out-of-range float to
  \<open>int\<close>, and the PNG encoder applied to a frame of the given width and height.
\<close>

type_synonym thresholds = "(string \<times> flt) list"

record goEnv =
  jsonUnmarshal :: "string \<Rightarrow> string + thresholds"
  FeedRateToDuration :: "string \<Rightarrow> string + Duration"
  ParseFloat :: "string \<Rightarrow> nat \<Rightarrow> string + flt"
  floatToInt :: "flt \<Rightarrow> int"
  pngEncode :: "int \<Rightarrow> int \<Rightarrow> 8 word list \<Rightarrow> 8 word list"

text \<open>
  A Go map from strings is a list of entries with distinct keys, in the order in which a
  \<open>range\<close> loop happens to visit them. The configuration of a monitor maps every key
  that is absent to the empty string.
\<close>

type_synonym Config = "string \<Rightarrow> string"

record doodsConfig =
  ip :: string
  duration :: Duration
  recDuration :: Duration
  thresholds :: thresholds
  timestampOffset :: Duration
  detectorName :: string

definition mapDelete :: "string \<Rightarrow> thresholds \<Rightarrow> thresholds" where
  "mapDelete key t = filter (\<lambda>(k, v). k \<noteq> key) t"

text \<open>
  The loop of \<open>parseConfig\<close> over the thresholds: the entries still to visit, and the
  map, from which the entries equal to -1 are deleted.
\<close>

fun disableLoop :: "thresholds \<Rightarrow> thresholds \<Rightarrow> thresholds" where
  "disableLoop [] t = t"
| "disableLoop ((key, thresh) # rest) t =
     disableLoop rest (if feq thresh (Fin (- 1)) then mapDelete key t else t)"

datatype configError =
    UnmarshalError string
  | FeedRateError string
  | DurationError string
  | OffsetError numError

definition parseConfig :: "goEnv \<Rightarrow> Config \<Rightarrow> string \<Rightarrow> configError + doodsConfig" where
  "parseConfig env config addr =
     (case jsonUnmarshal env (config ''doodsThresholds'') of
        Inl err \<Rightarrow> Inl (UnmarshalError err)
      | Inr t0 \<Rightarrow>
          let t = disableLoop t0 t0
          in (case FeedRateToDuration env (config ''doodsFeedRate'') of
                Inl err \<Rightarrow> Inl (FeedRateError err)
              | Inr dur \<Rightarrow>
                  (case ParseFloat env (config ''doodsDuration'') 64 of
                     Inl err \<Rightarrow> Inl (DurationError err)
                   | Inr recDurationFloat \<Rightarrow>
                       let recDur = toInt (floatToInt env)
                             (fmul binary64 recDurationFloat (ofInt binary64 Second))
                       in (case Atoi (config ''timestampOffset'') of
                             Inl err \<Rightarrow> Inl (OffsetError err)
                           | Inr offset \<Rightarrow>
                               Inr \<lparr> ip = addr, duration = dur, recDuration = recDur,
                                     thresholds = t,
                                     timestampOffset = wrap64 (offset * Millisecond),
                                     detectorName = config ''doodsDetectorName'' \<rparr>))))"

record addon =
  conf :: doodsConfig
  ident :: string
  shmDir :: string
  outputWidth :: int
  outputHeight :: int
  xMultiplier :: flt
  yMultiplier :: flt

definition mainPipe :: "addon \<Rightarrow> string" where
  "mainPipe a = shmDir a @ ''/doods/'' @ ident a @ ''/main.fifo''"

text \<open>\<open>ffmpeg.ParseArgs\<close>.\<close>

definition ParseArgs :: "string \<Rightarrow> string list" where
  "ParseArgs args = Split (CHR '' '') (TrimSpace args)"

text \<open>
  The sizes that \<open>generateFFmpegArgs\<close> computes once the input is known to be large
  enough: the width and height of the scaled frame, and the two multipliers.
\<close>

definition frameSize :: "goEnv \<Rightarrow> addon \<Rightarrow> flt \<Rightarrow> flt \<Rightarrow> int \<times> int \<times> flt \<times> flt" where
  "frameSize env a inputWidth inputHeight =
     (if fless inputHeight inputWidth then
        let height = toFormat binary32
              (fdiv binary64 (fmul binary64 (ofInt binary64 (outputHeight a)) inputHeight)
                 inputWidth)
        in (outputWidth a, toInt (floatToInt env) height, Fin 1,
            fdiv binary32 (ofInt binary32 (outputHeight a)) height)
      else if fless inputWidth inputHeight then
        let width = toFormat binary32
              (fdiv binary64 (fmul binary64 (ofInt binary64 (outputWidth a)) inputWidth)
                 inputHeight)
        in (toInt (floatToInt env) width, outputHeight a,
            fdiv binary32 (ofInt binary32 (outputWidth a)) width, Fin 1)
      else (outputWidth a, outputHeight a, Fin 1, Fin 1))"

datatype ffError =
    WidthParseError string
  | SplitIndexPanic
  | HeightParseError string
  | WidthLess
  | HeightLess

text \<open>
  \<open>generateFFmpegArgs\<close>: an error (the panic of \<open>split[1]\<close> on a size without an \<open>x\<close>
  is one of them), or the arguments and the multipliers \<open>x\<close> and \<open>y\<close>. The line that
  the second branch prints to the standard output is left out.
\<close>

definition filterArg :: "Config \<Rightarrow> addon \<Rightarrow> int \<Rightarrow> int \<Rightarrow> string" where
  "filterArg config a frameWidth frameHeight =
     ''fps=fps='' @ config ''doodsFeedRate'' @
     '',scale='' @ Itoa frameWidth @ '':'' @ Itoa frameHeight @
     '',pad='' @ Itoa (outputWidth a) @ '':'' @ Itoa (outputHeight a) @ '':0:0''"

definition generateFFmpegArgs ::
  "goEnv \<Rightarrow> addon \<Rightarrow> Config \<Rightarrow> string \<Rightarrow> ffError + string list \<times> flt \<times> flt" where
  "generateFFmpegArgs env a config sz =
     (case Split (CHR ''x'') sz of
        [] \<Rightarrow> Inl SplitIndexPanic
      | s0 # ss \<Rightarrow>
          (case ParseFloat env s0 32 of
             Inl err \<Rightarrow> Inl (WidthParseError err)
           | Inr inputWidth \<Rightarrow>
               (case ss of
                  [] \<Rightarrow> Inl SplitIndexPanic
                | s1 # _ \<Rightarrow>
                    (case ParseFloat env s1 32 of
                       Inl err \<Rightarrow> Inl (HeightParseError err)
                     | Inr inputHeight \<Rightarrow>
                         if toInt (floatToInt env) inputWidth < outputWidth a then Inl WidthLess
                         else if toInt (floatToInt env) inputHeight < outputHeight a
                         then Inl HeightLess
                         else
                           (case frameSize env a inputWidth inputHeight of
                              (frameWidth, frameHeight, xMult, yMult) \<Rightarrow>
                                Inr ([''-y'', ''-loglevel'', config ''logLevel''] @
                                     (if config ''hwaccel'' \<noteq> []
                                      then ParseArgs (''-hwaccel '' @ config ''hwaccel'')
                                      else []) @
                                     [''-i'', mainPipe a, ''-filter'',
                                      filterArg config a frameWidth frameHeight,
                                      ''-f'', ''rawvideo'', ''-pix_fmt'', ''rgb24'', ''-''],
                                     xMult, yMult))))))"

text \<open>A detection as the detector returns it, and as the monitor takes it in an event.\<close>

record odrpcDetection =
  GetTop :: flt
  GetLeft :: flt
  GetBottom :: flt
  GetRight :: flt
  GetConfidence :: flt
  GetLabel :: string

record Detection =
  Label :: string
  Score :: flt
  Region :: "int \<times> int \<times> int \<times> int"

type_synonym Time = int

record Event =
  Time :: Time
  Detections :: "Detection list"
  Duration :: Duration
  RecDuration :: Duration

definition conv :: "goEnv \<Rightarrow> flt \<Rightarrow> int" where
  "conv env input = toInt (floatToInt env) (fmul binary32 input (Fin 100))"

definition newDetection :: "goEnv \<Rightarrow> addon \<Rightarrow> odrpcDetection \<Rightarrow> Detection" where
  "newDetection env a detection =
     \<lparr> Label = GetLabel detection,
       Score = GetConfidence detection,
       Region = (conv env (fmul binary32 (GetTop detection) (yMultiplier a)),
                 conv env (fmul binary32 (GetLeft detection) (xMultiplier a)),
                 conv env (fmul binary32 (GetBottom detection) (yMultiplier a)),
                 conv env (fmul binary32 (GetRight detection) (xMultiplier a))) \<rparr>"

text \<open>The inner loop of \<open>parseDetections\<close>, over the thresholds, and the outer one.\<close>

fun thresholdLoop :: "goEnv \<Rightarrow> addon \<Rightarrow> odrpcDetection \<Rightarrow> thresholds \<Rightarrow> Detection list" where
  "thresholdLoop env a detection [] = []"
| "thresholdLoop env a detection ((name, thresh) # rest) =
     (if GetLabel detection \<noteq> name \<or> fless (GetConfidence detection) thresh
      then thresholdLoop env a detection rest
      else newDetection env a detection # thresholdLoop env a detection rest)"

fun detectionLoop :: "goEnv \<Rightarrow> addon \<Rightarrow> odrpcDetection list \<Rightarrow> Detection list" where
  "detectionLoop env a [] = []"
| "detectionLoop env a (detection # rest) =
     thresholdLoop env a detection (thresholds (conf a)) @ detectionLoop env a rest"

text \<open>\<open>parseDetections\<close>: the event sent on the trigger channel, if one is.\<close>

definition parseDetections ::
  "goEnv \<Rightarrow> addon \<Rightarrow> Time \<Rightarrow> odrpcDetection list \<Rightarrow> Event option" where
  "parseDetections env a t detections =
     (if detections = [] then None
      else let filtered = detectionLoop env a detections
           in if filtered \<noteq> [] then
                Some \<lparr> Time = t, Detections = filtered, Duration = duration (conf a),
                       RecDuration = recDuration (conf a) \<rparr>
              else None)"

text \<open>
  The words of the specification: a detection survives when its label is a key of the
  thresholds and its score is not less than the threshold of that key.
\<close>

definition survives :: "thresholds \<Rightarrow> odrpcDetection \<Rightarrow> bool" where
  "survives ths detection =
     (case map_of ths (GetLabel detection) of
        None \<Rightarrow> False
      | Some thresh \<Rightarrow> \<not> fless (GetConfidence detection) thresh)"

text \<open>\<open>time.Time.Add\<close>: a new time, the receiver is not changed.\<close>

definition Add :: "Time \<Rightarrow> Duration \<Rightarrow> Time" where
  "Add t d = t + d"

record DetectRequest =
  DetectorName :: string
  Data :: "8 word list"
  Detect :: "(string \<times> flt) list"

text \<open>
  One turn of the frame loop, as the environment decides it: whether the context is
  done, what the read from the encoder gives, the wall-clock time after the read, the
  error of the send if any, and what the receive gives.
\<close>

datatype readResult = ReadFrame "8 word list" | ReadEOF | ReadError string

datatype recvResult = RecvEOF | RecvError string | Response "odrpcDetection list"

record frameStep =
  ctxDone :: bool
  readRes :: readResult
  nowAt :: Time
  sendErr :: "string option"
  recvRes :: recvResult

text \<open>
  \<open>sendFrame\<close>: the request sent, the event posted if any, and the error returned.
\<close>

definition sendFrame ::
  "goEnv \<Rightarrow> addon \<Rightarrow> frameStep \<Rightarrow> Time \<Rightarrow> 8 word list
     \<Rightarrow> DetectRequest \<times> Event option \<times> string option" where
  "sendFrame env a step t b =
     (let request = \<lparr> DetectorName = detectorName (conf a), Data = b,
                      Detect = [(''*'', Fin 10)] \<rparr>
      in case sendErr step of
           Some err \<Rightarrow> (request, None, Some (''could not send: '' @ err))
         | None \<Rightarrow>
             (case recvRes step of
                RecvEOF \<Rightarrow> (request, None, None)
              | RecvError err \<Rightarrow> (request, None, Some (''could not receive: '' @ err))
              | Response detections \<Rightarrow> (request, parseDetections env a t detections, None)))"

text \<open>
  \<open>readFrames\<close>: for every frame handed to \<open>sendFrame\<close>, the time stamp it was handed
  with, the request and the event posted; and how the loop ended, \<open>Running\<close> when the
  environment has no further turn.
\<close>

record frameSent =
  stamp :: Time
  request :: DetectRequest
  posted :: "Event option"

datatype loopEnd = Running | Returned "string option"

fun readFrames :: "goEnv \<Rightarrow> addon \<Rightarrow> frameStep list \<Rightarrow> frameSent list \<times> loopEnd" where
  "readFrames env a [] = ([], Running)"
| "readFrames env a (step # steps) =
     (if ctxDone step then ([], Returned None)
      else case readRes step of
             ReadEOF \<Rightarrow> ([], Returned None)
           | ReadError err \<Rightarrow> ([], Returned (Some (''could not read from stdout: '' @ err)))
           | ReadFrame tmp \<Rightarrow>
               let t = nowAt step;
                   unused = Add t (- timestampOffset (conf a));
                   b = pngEncode env (outputWidth a) (outputHeight a) tmp
               in (case sendFrame env a step t b of
                     (req, ev, Some err) \<Rightarrow>
                       ([\<lparr> stamp = t, request = req, posted = ev \<rparr>],
                        Returned (Some (''could not send frame: '' @ err)))
                   | (req, ev, None) \<Rightarrow>
                       (case readFrames env a steps of
                          (sent, e) \<Rightarrow> (\<lparr> stamp = t, request = req, posted = ev \<rparr> # sent, e))))"

text \<open>The keys that the loop of \<open>parseConfig\<close> deletes when it visits the given entries.\<close>

definition disabledKeys :: "thresholds \<Rightarrow> string set" where
  "disabledKeys es = {k. \<exists>v. (k, v) \<in> set es \<and> feq v (Fin (- 1))}"

section \<open>A concrete monitor\<close>

text \<open>
  An environment, a configuration and a detector response to run the bridge on. The
  environment parses decimal integers only, decodes the one thresholds text of the
  configuration, encodes a frame as its own bytes and converts every out-of-range float
  to the least \<open>int\<close>. The scores are the \<open>float32\<close> nearest to 0.7, 0.3, 0.9 and 0.99.
\<close>

definition exampleThresholdsJSON :: string where
  "exampleThresholdsJSON =
     ''{'' @ [CHR 0x22] @ ''person'' @ [CHR 0x22] @ '': 0.5, '' @
     [CHR 0x22] @ ''car'' @ [CHR 0x22] @ '': -1}''"

definition exampleEnv :: goEnv where
  "exampleEnv =
     \<lparr> jsonUnmarshal =
         (\<lambda>s. if s = exampleThresholdsJSON
               then Inr [(''person'', Fin (1 / 2)), (''car'', Fin (- 1))]
               else Inl ''unexpected end of JSON input''),
       FeedRateToDuration = (\<lambda>s. Inr (500 * Millisecond)),
       ParseFloat =
         (\<lambda>s bits. case Atoi s of
                      Inl err \<Rightarrow> Inl ''invalid syntax''
                    | Inr n \<Rightarrow> Inr (roundTo (if bits = 32 then binary32 else binary64) (of_int n))),
       floatToInt = (\<lambda>a. - (2 ^ 63)),
       pngEncode = (\<lambda>w h pix. pix) \<rparr>"

definition exampleConfig :: Config where
  "exampleConfig key =
     (if key = ''doodsThresholds'' then exampleThresholdsJSON
      else if key = ''doodsFeedRate'' then ''2''
      else if key = ''doodsDuration'' then ''120''
      else if key = ''timestampOffset'' then ''500''
      else if key = ''doodsDetectorName'' then ''default''
      else if key = ''logLevel'' then ''error''
      else [])"

definition exampleConf :: doodsConfig where
  "exampleConf =
     \<lparr> ip = ''127.0.0.1:8080'', duration = 500 * Millisecond, recDuration = 120 * Second,
       thresholds = [(''person'', Fin (1 / 2))], timestampOffset = 500 * Millisecond,
       detectorName = ''default'' \<rparr>"

definition exampleAddon :: addon where
  "exampleAddon =
     \<lparr> conf = exampleConf, ident = ''cam1'', shmDir = ''/dev/shm'',
       outputWidth = 300, outputHeight = 300, xMultiplier = Fin 1, yMultiplier = Fin 1 \<rparr>"

definition exampleDetection :: "string \<Rightarrow> rat \<Rightarrow> odrpcDetection" where
  "exampleDetection label score =
     \<lparr> GetTop = Fin (1 / 4), GetLeft = Fin (1 / 8), GetBottom = Fin (3 / 4),
       GetRight = Fin (1 / 2), GetConfidence = Fin score, GetLabel = label \<rparr>"

definition exampleDetections :: "odrpcDetection list" where
  "exampleDetections =
     [exampleDetection ''person'' (11744051 / 16777216),
      exampleDetection ''person'' (10066330 / 33554432),
      exampleDetection ''car'' (15099494 / 16777216),
      exampleDetection ''dog'' (16609444 / 16777216)]"

definition exampleStep :: frameStep where
  "exampleStep =
     \<lparr> ctxDone = False, readRes = ReadFrame [1, 2, 3], nowAt = 5000 * Millisecond,
       sendErr = None, recvRes = Response exampleDetections \<rparr>"

section \<open>Verified properties\<close>

subsection \<open>Decimal digits\<close>

lemma decimal_snoc: "decimal n (cs @ [c]) = decimal n cs * 10 + digitVal c"
  by (induction cs arbitrary: n) simp_all

lemma digitVal_char_of: "d < 10 \<Longrightarrow> digitVal (char_of (48 + d)) = int d"
  by (simp add: digitVal_def)

lemma decimal_natDigits: "decimal 0 (natDigits n) = int n"
proof (induction n rule: natDigits.induct)
  case (1 n)
  show ?case
  proof (cases "n < 10")
    case True
    then show ?thesis by (subst natDigits.simps) (simp add: digitVal_char_of)
  next
    case False
    with 1 have ih: "decimal 0 (natDigits (n div 10)) = int (n div 10)" by simp
    have "int (n div 10) * 10 + int (n mod 10) = int n" by presburger
    with False ih show ?thesis
      by (subst natDigits.simps) (simp add: decimal_snoc digitVal_char_of)
  qed
qed

lemma natDigits_inj: "natDigits m = natDigits n \<Longrightarrow> m = n"
  by (metis decimal_natDigits of_nat_eq_iff)

lemma natDigits_255: "natDigits 255 = ''255''"
  by code_simp

lemma natDigits_eq_255: "natDigits n = ''255'' \<longleftrightarrow> n = 255"
  using natDigits_inj [of n 255] natDigits_255 by auto

subsection \<open>Keyframe duration\<close>

text \<open>
  Claim C4. The lines of a playlist are the pieces of its trimmed text between line
  feeds. When there are at least two of them and the one before the last is
  \<open>#EXTINF:3.500000,\<close>, \<open>getKeyframeDuration\<close> returns 3500 milliseconds; when it is
  \<open>#EXTINF:4.250000,\<close>, 4250 milliseconds; and when the trimmed text has fewer than two
  lines, an error.
\<close>

theorem getKeyframeDuration_penultimate:
  "(2 \<le> length (Split (CHR 0x0A) (TrimSpace m3u8)) \<and>
      Split (CHR 0x0A) (TrimSpace m3u8) ! (length (Split (CHR 0x0A) (TrimSpace m3u8)) - 2)
        = ''#EXTINF:3.500000,''
      \<longrightarrow> getKeyframeDuration (Some m3u8) = Inr (3500 * Millisecond)) \<and>
   (2 \<le> length (Split (CHR 0x0A) (TrimSpace m3u8)) \<and>
      Split (CHR 0x0A) (TrimSpace m3u8) ! (length (Split (CHR 0x0A) (TrimSpace m3u8)) - 2)
        = ''#EXTINF:4.250000,''
      \<longrightarrow> getKeyframeDuration (Some m3u8) = Inr (4250 * Millisecond)) \<and>
   (length (Split (CHR 0x0A) (TrimSpace m3u8)) < 2
      \<longrightarrow> isl (getKeyframeDuration (Some m3u8)))"
  by (simp add: getKeyframeDuration_def Let_def removeDots_def Atoi_def isDigit_def digitVal_def)

text \<open>
  The three cases at concrete files: the playlist of the source's comment, a playlist
  whose line before the last is \<open>#EXTINF:4.250000,\<close>, and a file of one line.
\<close>

theorem getKeyframeDuration_penultimate_witness:
  "getKeyframeDuration (Some examplePlaylist) = Inr (3500 * Millisecond) \<and>
   getKeyframeDuration (Some examplePlaylist2) = Inr (4250 * Millisecond) \<and>
   isl (getKeyframeDuration (Some ''#EXTM3U''))"
proof -
  have h1: "2 \<le> length (Split (CHR 0x0A) (TrimSpace examplePlaylist)) \<and>
      Split (CHR 0x0A) (TrimSpace examplePlaylist) !
        (length (Split (CHR 0x0A) (TrimSpace examplePlaylist)) - 2) = ''#EXTINF:3.500000,''"
    by code_simp
  have h2: "2 \<le> length (Split (CHR 0x0A) (TrimSpace examplePlaylist2)) \<and>
      Split (CHR 0x0A) (TrimSpace examplePlaylist2) !
        (length (Split (CHR 0x0A) (TrimSpace examplePlaylist2)) - 2) = ''#EXTINF:4.250000,''"
    by code_simp
  have h3: "length (Split (CHR 0x0A) (TrimSpace ''#EXTM3U'')) < 2"
    by code_simp
  from h1 h2 h3 getKeyframeDuration_penultimate [of examplePlaylist]
    getKeyframeDuration_penultimate [of examplePlaylist2]
    getKeyframeDuration_penultimate [of "''#EXTM3U''"]
  show ?thesis by blast
qed

subsection \<open>The process supervisor\<close>

text \<open>
  Claim C7. When the child was started, \<open>Start\<close> returns no error if the child exited
  with status 255, and otherwise returns the error of \<open>Wait\<close> as it is: the exit error
  of any other exit status, the exit error of a child ended by a signal, any other error
  (whose message is not the text of exit status 255), and no error when \<open>Wait\<close> gave
  none. How the child came to exit, by itself or after the stop that follows a
  cancellation, plays no part.
\<close>

theorem Start_exit_status_255:
  "Start None (Some (ExitError (Exited 255))) = None \<and>
   (n \<noteq> 255 \<longrightarrow> Start None (Some (ExitError (Exited n))) = Some (ExitError (Exited n))) \<and>
   Start None (Some (ExitError (Signaled s))) = Some (ExitError (Signaled s)) \<and>
   (msg \<noteq> ''exit status 255'' \<longrightarrow> Start None (Some (OtherError msg)) = Some (OtherError msg)) \<and>
   Start None None = None"
  by (simp add: Start_def natDigits_eq_255)

theorem Start_exit_status_255_witness:
  "Start None (Some (ExitError (Exited 1))) = Some (ExitError (Exited 1)) \<and>
   Start None (Some (OtherError ''wait: no child processes''))
     = Some (OtherError ''wait: no child processes'')"
  using Start_exit_status_255 [of 1 s "''wait: no child processes''"] by simp



subsection \<open>The path manager\<close>




text \<open>
  Claim C6. The claim asks that the path is closed outside the mutex of the manager.
  The goroutine of the source does the opposite: everything between its \<open>Lock\<close> and its
  deferred \<open>Unlock\<close>, the call of \<open>close\<close> on the path included, runs with the mutex held.
\<close>

theorem removePath_closes_under_lock:
  "underLock False (removePath name)
     = [Debug ''Remove A'', DeleteConf name, Debug ''Remove B'', ClosePath name,
        Debug ''Remove C'', DeletePath name, Debug ''Remove D'']"
  by (simp add: removePath_def)

subsection \<open>The stream of a source\<close>

text \<open>
  Claim C9. When \<open>pkt.Marshal\<close> fails, \<open>WritePacketRTP\<close> returns with the stream as it
  was, the counters of every track included, and has written to no reader, whatever the
  track index.
\<close>

theorem WritePacketRTP_marshal_error:
  "marshal pkt = Inl err \<Longrightarrow> WritePacketRTP marshal st trackID pkt now = Done st []"
  by (simp add: WritePacketRTP_def)

theorem WritePacketRTP_marshal_error_witness:
  "WritePacketRTP (\<lambda>p. Inl ''header size insufficient'')
       \<lparr> stTracks = [\<lparr> lastSequenceNumber = 7, lastTimeRTP = 90000, lastTimeNTP = 1600000000,
                       lastSSRC = 5 \<rparr>],
         readersUnicast = [1, 2], readers = [1, 2, 3] \<rparr>
       0
       \<lparr> Header = \<lparr> SequenceNumber = 8, Timestamp = 93000, SSRC = 5 \<rparr>, Payload = [1, 2, 3] \<rparr>
       1600000001
     = Done \<lparr> stTracks = [\<lparr> lastSequenceNumber = 7, lastTimeRTP = 90000,
                            lastTimeNTP = 1600000000, lastSSRC = 5 \<rparr>],
              readersUnicast = [1, 2], readers = [1, 2, 3] \<rparr> []"
  using WritePacketRTP_marshal_error [of "\<lambda>p. Inl ''header size insufficient''" _
      "''header size insufficient''"]
  by simp

subsection \<open>The detection bridge: thresholds\<close>

lemma disabledKeys_Cons:
  "disabledKeys ((k, v) # es)
     = (if feq v (Fin (- 1)) then insert k (disabledKeys es) else disabledKeys es)"
  by (auto simp: disabledKeys_def)

lemma disableLoop_filter:
  "disableLoop es t = filter (\<lambda>(k, v). k \<notin> disabledKeys es) t"
proof (induction es arbitrary: t)
  case Nil
  show ?case by (simp add: disabledKeys_def)
next
  case (Cons e es)
  obtain k v where e: "e = (k, v)" by (cases e)
  show ?case
    unfolding e by (auto simp: Cons.IH disabledKeys_Cons mapDelete_def intro!: filter_cong)
qed

lemma disableLoop_distinct:
  assumes "distinct (map fst t)"
  shows "disableLoop t t = filter (\<lambda>(k, v). \<not> feq v (Fin (- 1))) t"
proof -
  have "k \<in> disabledKeys t \<longleftrightarrow> feq v (Fin (- 1))" if "(k, v) \<in> set t" for k v
    using that assms eq_key_imp_eq_value [of t k] by (auto simp: disabledKeys_def)
  then show ?thesis
    unfolding disableLoop_filter by (auto intro!: filter_cong)
qed

lemma thresholdLoop_absent:
  "GetLabel d \<notin> fst ` set ths \<Longrightarrow> thresholdLoop env a d ths = []"
  by (induction ths) auto

lemma thresholdLoop_distinct:
  "distinct (map fst ths) \<Longrightarrow>
   thresholdLoop env a d ths = (if survives ths d then [newDetection env a d] else [])"
proof (induction ths)
  case Nil
  show ?case by (simp add: survives_def)
next
  case (Cons e ths)
  obtain k v where e: "e = (k, v)" by (cases e)
  from Cons.prems have abs: "k \<notin> fst ` set ths" and dist: "distinct (map fst ths)"
    by (auto simp: e)
  show ?case
  proof (cases "GetLabel d = k")
    case True
    with abs have "thresholdLoop env a d ths = []" by (simp add: thresholdLoop_absent)
    with True show ?thesis by (simp add: e survives_def)
  next
    case False
    with Cons.IH [OF dist] show ?thesis by (simp add: e survives_def)
  qed
qed

lemma detectionLoop_filter:
  "distinct (map fst (thresholds (conf a))) \<Longrightarrow>
   detectionLoop env a dets
     = map (newDetection env a) (filter (survives (thresholds (conf a))) dets)"
  by (induction dets) (simp_all add: thresholdLoop_distinct)

lemma parseConfig_thresholds:
  "parseConfig env config addr = Inr c \<Longrightarrow>
   jsonUnmarshal env (config ''doodsThresholds'') = Inr t0 \<Longrightarrow>
   thresholds c = disableLoop t0 t0"
  by (auto simp: parseConfig_def Let_def split: sum.splits)

lemma distinct_filter_fst: "distinct (map fst t) \<Longrightarrow> distinct (map fst (filter P t))"
  by (induction t) auto

lemma example_parseConfig:
  "parseConfig exampleEnv exampleConfig ''127.0.0.1:8080'' = Inr exampleConf"
  by code_simp

lemma example_survivors:
  "filter (survives (thresholds (conf exampleAddon))) exampleDetections
     = [exampleDetection ''person'' (11744051 / 16777216)]"
  by code_simp

lemma example_newDetection:
  "newDetection exampleEnv exampleAddon (exampleDetection ''person'' (11744051 / 16777216))
     = \<lparr> Label = ''person'', Score = Fin (11744051 / 16777216), Region = (25, 12, 75, 50) \<rparr>"
  by code_simp

text \<open>
  Claim C1. Let the thresholds text of the configuration decode to a map \<open>t0\<close> (its
  keys are distinct, as in every Go map) and let the bridge run with the configuration
  that \<open>parseConfig\<close> returns. Then its thresholds are the entries of \<open>t0\<close> whose
  value is not -1; and \<open>parseDetections\<close> posts no event when no detection survives,
  and otherwise posts exactly one event, whose detections are the surviving detections
  of the response, in the order of the response. A detection survives when its label is
  a key of the thresholds and its score is not less than the threshold of that key.
\<close>

theorem thresholds_filter:
  assumes "jsonUnmarshal env (config ''doodsThresholds'') = Inr t0"
    and "distinct (map fst t0)"
    and "parseConfig env config addr = Inr (conf a)"
  shows "thresholds (conf a) = filter (\<lambda>(k, v). \<not> feq v (Fin (- 1))) t0 \<and>
         parseDetections env a t dets
           = (if filter (survives (thresholds (conf a))) dets = [] then None
              else Some \<lparr> Time = t,
                          Detections = map (newDetection env a)
                                         (filter (survives (thresholds (conf a))) dets),
                          Duration = duration (conf a),
                          RecDuration = recDuration (conf a) \<rparr>)"
proof -
  have th: "thresholds (conf a) = filter (\<lambda>(k, v). \<not> feq v (Fin (- 1))) t0"
    using parseConfig_thresholds [OF assms(3) assms(1)] disableLoop_distinct [OF assms(2)]
    by simp
  then have "distinct (map fst (thresholds (conf a)))"
    using assms(2) by (simp add: distinct_filter_fst)
  then have "detectionLoop env a dets
      = map (newDetection env a) (filter (survives (thresholds (conf a))) dets)"
    by (rule detectionLoop_filter)
  then have "parseDetections env a t dets
           = (if filter (survives (thresholds (conf a))) dets = [] then None
              else Some \<lparr> Time = t,
                          Detections = map (newDetection env a)
                                         (filter (survives (thresholds (conf a))) dets),
                          Duration = duration (conf a),
                          RecDuration = recDuration (conf a) \<rparr>)"
    by (auto simp: parseDetections_def Let_def)
  with th show ?thesis by blast
qed

text \<open>
  The example of the claim: the thresholds \<open>{"person": 0.5, "car": -1}\<close> and the
  response person 0.7, person 0.3, car 0.9, dog 0.99. The thresholds kept are those of
  person, and the event holds the first detection only.
\<close>

theorem thresholds_filter_witness:
  "thresholds (conf exampleAddon) = [(''person'', Fin (1 / 2))] \<and>
   parseDetections exampleEnv exampleAddon 0 exampleDetections
     = Some \<lparr> Time = 0,
              Detections = [\<lparr> Label = ''person'', Score = Fin (11744051 / 16777216),
                               Region = (25, 12, 75, 50) \<rparr>],
              Duration = 500 * Millisecond, RecDuration = 120 * Second \<rparr>"
proof -
  have j: "jsonUnmarshal exampleEnv (exampleConfig ''doodsThresholds'')
             = Inr [(''person'', Fin (1 / 2)), (''car'', Fin (- 1))]"
    by (simp add: exampleEnv_def exampleConfig_def)
  have d: "distinct (map fst [(''person'', Fin (1 / 2)), (''car'', Fin (- 1))])"
    by simp
  have c: "conf exampleAddon = exampleConf"
    by (simp add: exampleAddon_def)
  have p: "parseConfig exampleEnv exampleConfig ''127.0.0.1:8080'' = Inr (conf exampleAddon)"
    by (simp add: example_parseConfig c)
  have e: "filter (survives (thresholds (conf exampleAddon))) exampleDetections \<noteq> []"
    by (simp only: example_survivors) simp
  have dur: "duration (conf exampleAddon) = 500 * Millisecond"
    and rec: "recDuration (conf exampleAddon) = 120 * Second"
    and ths: "thresholds (conf exampleAddon) = [(''person'', Fin (1 / 2))]"
    by (simp_all add: c exampleConf_def)
  from thresholds_filter [OF j d p, of 0 exampleDetections]
  have "parseDetections exampleEnv exampleAddon 0 exampleDetections
          = Some \<lparr> Time = 0,
                   Detections = map (newDetection exampleEnv exampleAddon)
                     (filter (survives (thresholds (conf exampleAddon))) exampleDetections),
                   Duration = duration (conf exampleAddon),
                   RecDuration = recDuration (conf exampleAddon) \<rparr>"
    using e by (simp only: if_False)
  then have "parseDetections exampleEnv exampleAddon 0 exampleDetections
          = Some \<lparr> Time = 0,
                   Detections = [\<lparr> Label = ''person'', Score = Fin (11744051 / 16777216),
                                    Region = (25, 12, 75, 50) \<rparr>],
                   Duration = 500 * Millisecond, RecDuration = 120 * Second \<rparr>"
    by (simp only: example_survivors list.map example_newDetection dur rec)
  with ths show ?thesis by (intro conjI)
qed

subsection \<open>The detection bridge: time stamps\<close>

lemma readFrames_stamps:
  "map stamp (fst (readFrames env a steps))
     = map nowAt (take (length (fst (readFrames env a steps))) steps)"
  by (induction steps) (auto simp: Let_def split: readResult.splits prod.splits option.splits)

text \<open>
  Claim C3. The claim asks for the time of the read minus the offset. \<open>readFrames\<close>
  computes that time with \<open>t.Add\<close> and drops the result: with an offset of 500
  milliseconds, a frame read at 5000 milliseconds is handed to \<open>sendFrame\<close> with the
  stamp 5000 milliseconds, and so is the event it triggers.
\<close>

theorem readFrames_stamp_without_offset:
  "timestampOffset (conf exampleAddon) = 500 * Millisecond \<and>
   map stamp (fst (readFrames exampleEnv exampleAddon [exampleStep])) = [5000 * Millisecond] \<and>
   map (map_option Time \<circ> posted) (fst (readFrames exampleEnv exampleAddon [exampleStep]))
     = [Some (5000 * Millisecond)]"
  by code_simp

end
